theory Spec2Isabelle
  imports Complex_Main "HOL-Library.Sublist"
begin

section \<open>The Gowin shell session driver (gowin\_mcp\_server.py)\<close>

text \<open>
  The program keeps one \<^verbatim>\<open>GowinProcess\<close> object: the handle of the child shell,
  a list of output chunks, and an event that says a prompt was seen. A background thread
  (\<^verbatim>\<open>read_output\<close>) reads the child's output one character at a time and appends
  chunks to the list; the calling thread drains the list (\<^verbatim>\<open>get_output\<close>) and
  sends commands (\<^verbatim>\<open>send_command\<close>).

  The embedding keeps the two threads apart. The reader thread is a function from what it
  observes (the loop condition, the result of each \<^verbatim>\<open>read(1)\<close>) to the list of
  actions it performs on the shared object, in order. The only such actions are an append
  to \<^verbatim>\<open>output_buffer\<close> (under the lock) and \<^verbatim>\<open>prompt_ready.set()\<close>.
  The calling thread's functions take, as a schedule, the reader's actions that fall
  between each two of their own steps, together with the outcome of every call into the
  operating system that may fail. Elapsed time is not modelled: the actions listed for a
  wait are those the reader performs before the wait returns.
\<close>

subsection \<open>Strings\<close>

definition newline :: char where
  "newline = CHR 0x0A"

definition dquote :: char where
  "dquote = CHR 0x22"

definition PROMPT :: string where
  "PROMPT = ''% ''"

text \<open>
  \<^verbatim>\<open>s.index(sub)\<close>: the lowest position at which \<open>sub\<close> occurs in \<open>s\<close>;
  \<open>None\<close> where Python raises ValueError.
\<close>

fun str_index :: "string \<Rightarrow> string \<Rightarrow> nat option" where
  "str_index [] sub = (if sub = [] then Some 0 else None)"
| "str_index (c # s) sub =
     (if take (length sub) (c # s) = sub then Some 0
      else map_option Suc (str_index s sub))"

text \<open>\<^verbatim>\<open>sub in s\<close>.\<close>

definition str_contains :: "string \<Rightarrow> string \<Rightarrow> bool" where
  "str_contains s sub = (str_index s sub \<noteq> None)"

subsection \<open>Exceptions and the shared object\<close>

text \<open>
  A raised exception is a value: \<open>Inl e\<close> is \<^verbatim>\<open>raise e\<close>, \<open>Inr v\<close> is
  \<^verbatim>\<open>return v\<close>. \<open>RuntimeError\<close> is the one the program raises itself (and the
  one \<^verbatim>\<open>Thread.start\<close> raises); \<open>OverflowError\<close> is what a wait raises for a
  timeout that is too large; \<open>OtherError\<close> stands for any other subclass of
  \<^verbatim>\<open>Exception\<close> coming out of the standard library. Each carries its text.
\<close>

datatype py_exn = RuntimeError string | OverflowError string | OtherError string

fun exn_text :: "py_exn \<Rightarrow> string" where
  "exn_text (RuntimeError m) = m"
| "exn_text (OverflowError m) = m"
| "exn_text (OtherError m) = m"

text \<open>
  A Python \<^verbatim>\<open>float\<close>, as far as it is compared: a finite value, an infinity or
  not-a-number; \<open>float_gt t x\<close> is \<^verbatim>\<open>t > x\<close> for a finite \<open>x\<close>.
\<close>

datatype py_float = Float real | Infinity | NegInfinity | NaN

fun float_gt :: "py_float \<Rightarrow> real \<Rightarrow> bool" where
  "float_gt (Float r) x = (x < r)"
| "float_gt Infinity x = True"
| "float_gt NegInfinity x = False"
| "float_gt NaN x = False"

datatype signal = SIGTERM | SIGKILL

text \<open>
  The \<^verbatim>\<open>subprocess.Popen\<close> handle: \<open>returncode\<close> is what \<^verbatim>\<open>poll()\<close>
  answers (\<open>None\<close> while the child lives), \<open>stdin_text\<close> is the text written and
  flushed to the child's input, \<open>signals\<close> the termination requests sent to it.
\<close>

record popen =
  returncode :: "int option"
  stdin_text :: string
  signals :: "signal list"

definition new_popen :: popen where
  "new_popen = \<lparr>returncode = None, stdin_text = [], signals = []\<rparr>"

record gowin_process =
  process :: "popen option"
  output_buffer :: "string list"
  prompt_ready :: bool

text \<open>\<^verbatim>\<open>GowinProcess.__init__\<close>.\<close>

definition gowin_init :: gowin_process where
  "gowin_init = \<lparr>process = None, output_buffer = [], prompt_ready = False\<rparr>"

definition is_running :: "gowin_process \<Rightarrow> bool" where
  "is_running g = (case process g of None \<Rightarrow> False | Some p \<Rightarrow> returncode p = None)"

subsection \<open>The reader thread\<close>

datatype action = Append string | SetPrompt

fun apply_action :: "action \<Rightarrow> gowin_process \<Rightarrow> gowin_process" where
  "apply_action (Append chunk) g = g\<lparr>output_buffer := output_buffer g @ [chunk]\<rparr>"
| "apply_action SetPrompt g = g\<lparr>prompt_ready := True\<rparr>"

fun run_actions :: "action list \<Rightarrow> gowin_process \<Rightarrow> gowin_process" where
  "run_actions [] g = g"
| "run_actions (a # as) g = run_actions as (apply_action a g)"

text \<open>The chunks a list of actions appends, in order.\<close>

fun flushed :: "action list \<Rightarrow> string list" where
  "flushed [] = []"
| "flushed (Append chunk # as) = chunk # flushed as"
| "flushed (SetPrompt # as) = flushed as"

text \<open>
  What the thread observes in one turn of its loop: the loop condition
  \<^verbatim>\<open>self.process and self.process.poll() is None\<close> is false (\<open>CondFalse\<close>), or
  it is true and \<^verbatim>\<open>read(1)\<close> gives a character, gives the empty string, or raises.
\<close>

datatype scan_obs = CondFalse | ReadChar char | ReadEof | ReadRaise string

text \<open>
  The body of the loop for a character \<open>ch\<close>, from the fragment \<open>buf\<close>: the actions
  and the new fragment. The newline test comes first, as in the source; the prompt test
  and \<^verbatim>\<open>buf.index("% ")\<close> are one lookup.
\<close>

definition read_step :: "string \<Rightarrow> char \<Rightarrow> action list \<times> string" where
  "read_step buf0 ch =
     (let buf = buf0 @ [ch] in
      if ch = newline then ([Append buf], [])
      else (case str_index buf PROMPT of
              Some i \<Rightarrow>
                (let idx = i + 2; to_emit = take idx buf; rest = drop idx buf
                 in ([Append to_emit, SetPrompt], rest))
            | None \<Rightarrow> ([], buf)))"

text \<open>The code after the loop: \<^verbatim>\<open>if buf: append(buf)\<close>.\<close>

definition leftover :: "string \<Rightarrow> action list" where
  "leftover buf = (if buf \<noteq> [] then [Append buf] else [])"

definition reader_error :: "string \<Rightarrow> string" where
  "reader_error e = [newline] @ ''[Reader error: '' @ e @ '']'' @ [newline]"

text \<open>
  The loop, from the fragment \<open>buf\<close>. When the observations run out the thread is
  still blocked in \<^verbatim>\<open>read(1)\<close> and has done nothing more.
\<close>

fun read_output_loop :: "string \<Rightarrow> scan_obs list \<Rightarrow> action list" where
  "read_output_loop buf [] = []"
| "read_output_loop buf (CondFalse # obs) = leftover buf"
| "read_output_loop buf (ReadEof # obs) =
     (if buf \<noteq> [] then [Append buf] @ leftover [] else leftover buf)"
| "read_output_loop buf (ReadRaise e # obs) = [Append (reader_error e)]"
| "read_output_loop buf (ReadChar ch # obs) =
     (case read_step buf ch of (acts, buf') \<Rightarrow> acts @ read_output_loop buf' obs)"

definition read_output :: "scan_obs list \<Rightarrow> action list" where
  "read_output obs = read_output_loop [] obs"

subsection \<open>The calling thread\<close>

text \<open>\<^verbatim>\<open>get_output\<close>: the joined chunks, and the object with its list cleared.\<close>

definition get_output :: "gowin_process \<Rightarrow> string \<times> gowin_process" where
  "get_output g = (concat (output_buffer g), g\<lparr>output_buffer := []\<rparr>)"

text \<open>
  \<^verbatim>\<open>Event.wait(timeout)\<close> on \<^verbatim>\<open>prompt_ready\<close>, as the standard library has
  it: when the flag is set it returns true at once; otherwise, for a timeout above zero,
  it blocks on a lock with that timeout, which raises \<^verbatim>\<open>OverflowError\<close> when the
  timeout is above \<^verbatim>\<open>threading.TIMEOUT_MAX\<close> (\<open>mx\<close>, a constant of the
  platform), and for any other timeout it does not block. The result is the flag when the
  wait returns; \<open>blocked\<close> are the reader's actions until then.
\<close>

definition wait_overflows :: "py_float \<Rightarrow> real \<Rightarrow> bool" where
  "wait_overflows timeout mx = (float_gt timeout 0 \<and> float_gt timeout mx)"

definition event_wait ::
  "py_float \<Rightarrow> real \<Rightarrow> string \<Rightarrow> action list \<Rightarrow> gowin_process
     \<Rightarrow> (py_exn + bool) \<times> gowin_process" where
  "event_wait timeout mx msg blocked g =
     (if \<not> prompt_ready g \<and> wait_overflows timeout mx then (Inl (OverflowError msg), g)
      else (let g' = run_actions blocked g in (Inr (prompt_ready g'), g')))"

text \<open>
  What happens around one \<^verbatim>\<open>send_command\<close>: the reader's actions between
  \<^verbatim>\<open>prompt_ready.clear()\<close> and the first drain; whether the write to the child's
  input (or its flush) raises, and with what text; the reader's actions between the first
  drain and the call of \<^verbatim>\<open>prompt_ready.wait\<close> (or of the sleep); the platform's
  \<^verbatim>\<open>threading.TIMEOUT_MAX\<close> and the text of the \<^verbatim>\<open>OverflowError\<close> of a wait;
  the reader's actions until the wait (or the sleep) returns; and its actions between
  that return and the last drain. Reader actions before the first step or after the last
  one belong to the state before or after the call.
\<close>

record send_sched =
  before_drain :: "action list"
  write_error :: "string option"
  before_wait :: "action list"
  timeout_max :: real
  overflow_text :: string
  during_wait :: "action list"
  after_wait :: "action list"

definition stdin_write :: "string \<Rightarrow> gowin_process \<Rightarrow> gowin_process" where
  "stdin_write s g =
     g\<lparr>process := map_option (\<lambda>p. p\<lparr>stdin_text := stdin_text p @ s\<rparr>) (process g)\<rparr>"

text \<open>
  \<^verbatim>\<open>send_command(command, wait_for_prompt, timeout)\<close>. The wait is outside the
  \<^verbatim>\<open>try\<close> that guards the write, so what it raises leaves the function as it is.
  A timeout is a schedule that leaves the flag clear until the wait returns.
\<close>

definition send_command ::
  "gowin_process \<Rightarrow> string \<Rightarrow> bool \<Rightarrow> py_float \<Rightarrow> send_sched
     \<Rightarrow> (py_exn + string) \<times> gowin_process" where
  "send_command g command wait_for_prompt timeout sch =
     (if \<not> is_running g
      then (Inl (RuntimeError ''Gowin process is not running. Start it first.''), g)
      else
        (let g1 = g\<lparr>prompt_ready := False\<rparr>;
             g2 = run_actions (before_drain sch) g1;
             g3 = snd (get_output g2)
         in case write_error sch of
              Some e \<Rightarrow> (Inl (RuntimeError (''Error sending command: '' @ e)), g3)
            | None \<Rightarrow>
                (let g4 = stdin_write (command @ [newline]) g3;
                     g5 = run_actions (before_wait sch) g4
                 in if wait_for_prompt
                    then
                      (case event_wait timeout (timeout_max sch) (overflow_text sch)
                              (during_wait sch) g5 of
                         (Inl e, g6) \<Rightarrow> (Inl e, g6)
                       | (Inr signalled, g6) \<Rightarrow>
                           (case get_output (run_actions (after_wait sch) g6) of
                              (output, g7) \<Rightarrow>
                                if \<not> signalled
                                then (Inr (output @ [newline]
                                           @ ''[Warning: Command may still be running (timeout)]''),
                                      g7)
                                else (Inr output, g7)))
                    else
                      (let g6 = run_actions (during_wait sch) g5
                       in case get_output (run_actions (after_wait sch) g6) of
                            (output, g7) \<Rightarrow> (Inr output, g7)))))"

subsection \<open>The tools\<close>

text \<open>
  The child may exit by itself at any moment; \<open>child_exit (Some rc)\<close> is that event
  seen by the next \<^verbatim>\<open>poll()\<close>.
\<close>

definition child_exit :: "int option \<Rightarrow> gowin_process \<Rightarrow> gowin_process" where
  "child_exit ex g =
     (case ex of
        None \<Rightarrow> g
      | Some rc \<Rightarrow>
          g\<lparr>process := map_option
                (\<lambda>p. if returncode p = None then p\<lparr>returncode := Some rc\<rparr> else p) (process g)\<rparr>)"

definition send_signal :: "signal \<Rightarrow> gowin_process \<Rightarrow> gowin_process" where
  "send_signal sg g =
     g\<lparr>process := map_option (\<lambda>p. p\<lparr>signals := signals p @ [sg]\<rparr>) (process g)\<rparr>"

text \<open>
  \<^verbatim>\<open>start_gowin\<close>: whether \<^verbatim>\<open>Popen\<close> raises; whether starting the reader
  thread raises (\<^verbatim>\<open>Thread.start\<close> raises \<^verbatim>\<open>RuntimeError\<close> when no thread can
  be created); the reader's actions before the wait for the first prompt is called, and
  those during that wait and the sleep after a failed wait; whether the child has exited
  before the priming command; the schedule of the priming command, from which the
  platform's \<^verbatim>\<open>threading.TIMEOUT_MAX\<close> is taken for the first wait too. Starting
  the thread and the first wait are outside both \<^verbatim>\<open>try\<close> blocks.
\<close>

record start_sched =
  spawn_error :: "string option"
  thread_error :: "string option"
  before_initial_wait :: "action list"
  initial_wait :: "action list"
  exit_before_priming :: "int option"
  priming :: send_sched

definition start_gowin ::
  "gowin_process \<Rightarrow> start_sched \<Rightarrow> (py_exn + string) \<times> gowin_process" where
  "start_gowin g sch =
     (if is_running g then (Inr ''Gowin process is already running.'', g)
      else
        (case spawn_error sch of
           Some e \<Rightarrow> (Inr (''Error starting process: '' @ e), g\<lparr>process := None\<rparr>)
         | None \<Rightarrow>
             (let g1 = g\<lparr>process := Some new_popen\<rparr>;
                  g2 = g1\<lparr>prompt_ready := False\<rparr>
              in case thread_error sch of
                   Some e \<Rightarrow> (Inl (RuntimeError e), g2)
                 | None \<Rightarrow>
                     (case event_wait (Float 5) (timeout_max (priming sch))
                             (overflow_text (priming sch)) (initial_wait sch)
                             (run_actions (before_initial_wait sch) g2) of
                        (Inl e, g3) \<Rightarrow> (Inl e, g3)
                      | (Inr signalled, g3) \<Rightarrow>
                          (let g4 = child_exit (exit_before_priming sch) g3
                           in case send_command g4 ''set tcl_interactive 1'' True (Float 5)
                                     (priming sch) of
                                (Inr output, g5) \<Rightarrow>
                                  (Inr (''Gowin process started successfully.'' @ [newline]
                                        @ output), g5)
                              | (Inl e, g5) \<Rightarrow>
                                  (Inr (''Gowin process started, but error setting interactive mode: ''
                                        @ exn_text e), g5))))))"

text \<open>
  \<^verbatim>\<open>stop_gowin\<close>. \<^verbatim>\<open>process.wait(timeout=2)\<close> returns (the child has exited),
  raises \<^verbatim>\<open>TimeoutExpired\<close>, or raises something else; \<^verbatim>\<open>terminate()\<close> and
  \<^verbatim>\<open>kill()\<close> may raise. The child may have exited by itself before the exit
  command is sent. \<open>during_shutdown\<close> are the reader's actions from the end of the exit
  command to the \<^verbatim>\<open>finally\<close> block.
\<close>

datatype wait_outcome = Exited int | WaitTimeout | WaitRaises string

record stop_sched =
  exit_before_send :: "int option"
  exit_cmd :: send_sched
  wait1 :: wait_outcome
  terminate_error :: "string option"
  wait2 :: wait_outcome
  kill_error :: "string option"
  handler_kill_error :: "string option"
  during_shutdown :: "action list"

text \<open>The body of the \<^verbatim>\<open>try\<close>: \<open>Some e\<close> when \<open>e\<close> leaves it.\<close>

definition stop_try :: "gowin_process \<Rightarrow> stop_sched \<Rightarrow> py_exn option \<times> gowin_process" where
  "stop_try g sch =
     (case send_command (child_exit (exit_before_send sch) g) ''exit'' False (Float 30)
             (exit_cmd sch) of
        (Inl e, g1) \<Rightarrow> (Some e, g1)
      | (Inr output, g1) \<Rightarrow>
          (case wait1 sch of
             Exited rc \<Rightarrow> (None, child_exit (Some rc) g1)
           | WaitRaises e \<Rightarrow> (Some (OtherError e), g1)
           | WaitTimeout \<Rightarrow>
               (case terminate_error sch of
                  Some e \<Rightarrow> (Some (OtherError e), g1)
                | None \<Rightarrow>
                    (let g2 = send_signal SIGTERM g1
                     in case wait2 sch of
                          Exited rc \<Rightarrow> (None, child_exit (Some rc) g2)
                        | WaitRaises e \<Rightarrow> (Some (OtherError e), g2)
                        | WaitTimeout \<Rightarrow>
                            (case kill_error sch of
                               Some e \<Rightarrow> (Some (OtherError e), g2)
                             | None \<Rightarrow> (None, send_signal SIGKILL g2))))))"

text \<open>
  The handler \<^verbatim>\<open>except Exception as e\<close>: one more \<^verbatim>\<open>kill()\<close>, whose own
  failure is passed over.
\<close>

definition stop_except :: "py_exn option \<Rightarrow> gowin_process \<Rightarrow> stop_sched \<Rightarrow> gowin_process" where
  "stop_except raised g sch =
     (case raised of
        None \<Rightarrow> g
      | Some e \<Rightarrow>
          (case handler_kill_error sch of
             Some e' \<Rightarrow> g
           | None \<Rightarrow> send_signal SIGKILL g))"

definition stop_gowin ::
  "gowin_process \<Rightarrow> stop_sched \<Rightarrow> (py_exn + string) \<times> gowin_process" where
  "stop_gowin g sch =
     (if \<not> is_running g then (Inr ''Gowin process is not running.'', g)
      else
        (case stop_try g sch of
           (raised, g1) \<Rightarrow>
             (let g2 = run_actions (during_shutdown sch) (stop_except raised g1 sch);
                  g3 = g2\<lparr>process := None\<rparr>;
                  g4 = g3\<lparr>prompt_ready := False\<rparr>
              in (Inr ''Gowin process stopped.'', g4))))"

text \<open>
  The other tools build one command line and hand it to \<^verbatim>\<open>send_command\<close>, waiting
  for the prompt; they differ in the text and in the timeout. Only
  \<^verbatim>\<open>send_tcl_command\<close> takes its timeout from its caller.
\<close>

definition create_project ::
  "gowin_process \<Rightarrow> string \<Rightarrow> string \<Rightarrow> string \<Rightarrow> string \<Rightarrow> bool \<Rightarrow> send_sched
     \<Rightarrow> (py_exn + string) \<times> gowin_process" where
  "create_project g name directory part_number device_version force sch =
     (let cmd = ''create_project -name '' @ name @ '' -dir '' @ [dquote] @ directory @ [dquote]
                @ '' -pn '' @ part_number @ '' -device_version '' @ device_version;
          cmd' = (if force then cmd @ '' -force'' else cmd)
      in send_command g cmd' True (Float 30) sch)"

definition add_file ::
  "gowin_process \<Rightarrow> string \<Rightarrow> string \<Rightarrow> send_sched \<Rightarrow> (py_exn + string) \<times> gowin_process" where
  "add_file g file_type file_path sch =
     send_command g (''add_file -type '' @ file_type @ '' '' @ [dquote] @ file_path @ [dquote])
       True (Float 30) sch"

definition set_top_module ::
  "gowin_process \<Rightarrow> string \<Rightarrow> send_sched \<Rightarrow> (py_exn + string) \<times> gowin_process" where
  "set_top_module g module_name sch =
     send_command g (''set_option -top_module '' @ module_name) True (Float 30) sch"

definition set_output_base_name ::
  "gowin_process \<Rightarrow> string \<Rightarrow> send_sched \<Rightarrow> (py_exn + string) \<times> gowin_process" where
  "set_output_base_name g base_name sch =
     send_command g (''set_option -output_base_name '' @ base_name) True (Float 30) sch"

definition set_option ::
  "gowin_process \<Rightarrow> string \<Rightarrow> string \<Rightarrow> send_sched \<Rightarrow> (py_exn + string) \<times> gowin_process" where
  "set_option g option_name option_value sch =
     send_command g (''set_option -'' @ option_name @ '' '' @ option_value) True (Float 30) sch"

definition run_synthesis ::
  "gowin_process \<Rightarrow> send_sched \<Rightarrow> (py_exn + string) \<times> gowin_process" where
  "run_synthesis g sch = send_command g ''run syn'' True (Float 300) sch"

definition run_place_and_route ::
  "gowin_process \<Rightarrow> send_sched \<Rightarrow> (py_exn + string) \<times> gowin_process" where
  "run_place_and_route g sch = send_command g ''run pnr'' True (Float 300) sch"

definition run_all ::
  "gowin_process \<Rightarrow> send_sched \<Rightarrow> (py_exn + string) \<times> gowin_process" where
  "run_all g sch = send_command g ''run all'' True (Float 600) sch"

definition send_tcl_command ::
  "gowin_process \<Rightarrow> string \<Rightarrow> py_float \<Rightarrow> send_sched \<Rightarrow> (py_exn + string) \<times> gowin_process" where
  "send_tcl_command g command timeout sch = send_command g command True timeout sch"


subsection \<open>Notions the properties are stated with\<close>

text \<open>
  Drains of the calling thread interleaved with the reader's actions: the strings the
  drains return, in order, and the object afterwards.
\<close>

datatype event = Reader action | Drain

fun run_events :: "event list \<Rightarrow> gowin_process \<Rightarrow> string list \<times> gowin_process" where
  "run_events [] g = ([], g)"
| "run_events (Reader a # evs) g = run_events evs (apply_action a g)"
| "run_events (Drain # evs) g =
     (case get_output g of
        (out, g') \<Rightarrow> (case run_events evs g' of (outs, g'') \<Rightarrow> (out # outs, g'')))"

fun reader_actions :: "event list \<Rightarrow> action list" where
  "reader_actions [] = []"
| "reader_actions (Reader a # evs) = a # reader_actions evs"
| "reader_actions (Drain # evs) = reader_actions evs"

text \<open>
  The chunks appended up to the first \<^verbatim>\<open>prompt_ready.set()\<close> of a list of actions:
  the output "between the drain and the prompt detection" when the list starts at the
  drain.
\<close>

fun flushed_until_prompt :: "action list \<Rightarrow> string list" where
  "flushed_until_prompt [] = []"
| "flushed_until_prompt (Append chunk # as) = chunk # flushed_until_prompt as"
| "flushed_until_prompt (SetPrompt # as) = []"

text \<open>
  An operation ends by returning a string, not by raising; and it returns a string in
  which the text of a failure occurs.
\<close>

fun returns_string :: "(py_exn + string) \<Rightarrow> bool" where
  "returns_string (Inr s) = True"
| "returns_string (Inl e) = False"

fun returns_reporting :: "(py_exn + string) \<Rightarrow> string \<Rightarrow> bool" where
  "returns_reporting (Inr s) failure = str_contains s failure"
| "returns_reporting (Inl e) failure = False"

text \<open>
  A schedule in which the reader does nothing and the write succeeds, on a platform
  whose \<^verbatim>\<open>threading.TIMEOUT_MAX\<close> is 4294967 seconds.
\<close>

definition quiet :: send_sched where
  "quiet =
     \<lparr>before_drain = [], write_error = None, before_wait = [], timeout_max = 4294967,
      overflow_text = ''timeout value is too large'', during_wait = [], after_wait = []\<rparr>"

text \<open>A session whose child is alive, with nothing buffered.\<close>

definition running_session :: gowin_process where
  "running_session = \<lparr>process = Some new_popen, output_buffer = [], prompt_ready = False\<rparr>"

text \<open>
  A schedule in which the child prints a progress line that contains a percent sign and a
  space, then its prompt, and the calling thread resumes from its wait only after the
  reader has handled all of it.
\<close>

definition progress_sched :: send_sched where
  "progress_sched =
     quiet\<lparr>during_wait := read_output (map ReadChar (''50% done'' @ [newline] @ ''% ''))\<rparr>"

text \<open>
  A schedule in which the child prints one line and no prompt before the wait gives up.
\<close>

definition slow_sched :: send_sched where
  "slow_sched = quiet\<lparr>during_wait := read_output (map ReadChar (''Placing'' @ [newline]))\<rparr>"

text \<open>
  A stop in which the child ignores the exit command and the terminate request, and
  every call succeeds.
\<close>

definition stubborn_stop :: stop_sched where
  "stubborn_stop =
     \<lparr>exit_before_send = None, exit_cmd = quiet,
      wait1 = WaitTimeout, terminate_error = None, wait2 = WaitTimeout, kill_error = None,
      handler_kill_error = None, during_shutdown = []\<rparr>"

text \<open>
  A stop in which the write of the exit command fails and the kill in the handler fails
  too; and a start in which the child cannot be created.
\<close>

definition failing_stop :: stop_sched where
  "failing_stop =
     \<lparr>exit_before_send = None, exit_cmd = quiet\<lparr>write_error := Some ''Broken pipe''\<rparr>,
      wait1 = WaitTimeout, terminate_error = None, wait2 = WaitTimeout, kill_error = None,
      handler_kill_error = Some ''Access is denied'',
      during_shutdown = read_output [ReadRaise ''I/O operation on closed file'']\<rparr>"

definition failing_spawn :: start_sched where
  "failing_spawn =
     \<lparr>spawn_error = Some ''No such file or directory'', thread_error = None,
      before_initial_wait = [], initial_wait = [], exit_before_priming = None,
      priming = quiet\<rparr>"

text \<open>
  A start in which the child is created and prints its prompt, and the write of the
  priming command fails.
\<close>

definition failing_priming :: start_sched where
  "failing_priming =
     \<lparr>spawn_error = None, thread_error = None, before_initial_wait = [],
      initial_wait = read_output (map ReadChar ''% ''), exit_before_priming = None,
      priming = quiet\<lparr>write_error := Some ''Broken pipe''\<rparr>\<rparr>"

text \<open>
  A start in which the child is created and the reader thread cannot be started; and one
  in which the child exits right after it is created.
\<close>

definition failing_thread :: start_sched where
  "failing_thread =
     \<lparr>spawn_error = None, thread_error = Some ''can't start new thread'',
      before_initial_wait = [], initial_wait = [], exit_before_priming = None,
      priming = quiet\<rparr>"

definition dying_child :: start_sched where
  "dying_child =
     \<lparr>spawn_error = None, thread_error = None, before_initial_wait = [],
      initial_wait = [], exit_before_priming = Some 1, priming = quiet\<rparr>"

section \<open>Properties\<close>

subsection \<open>Strings\<close>

lemma str_index_bound: "str_index s sub = Some i \<Longrightarrow> i + length sub \<le> length s"
proof (induction s arbitrary: i)
  case Nil
  then show ?case by (simp split: if_splits)
next
  case (Cons c s)
  show ?case
  proof (cases "take (length sub) (c # s) = sub")
    case True
    with Cons.prems have "i = 0" by simp
    moreover from arg_cong [OF True, of length] have "length sub \<le> length (c # s)"
      by simp
    ultimately show ?thesis by simp
  next
    case False
    with Cons.prems obtain j where j: "str_index s sub = Some j" "i = Suc j"
      by auto
    from Cons.IH [OF j(1)] j(2) show ?thesis by simp
  qed
qed

lemma str_index_at: "str_index s sub = Some i \<Longrightarrow> take (length sub) (drop i s) = sub"
proof (induction s arbitrary: i)
  case Nil
  then show ?case by (simp split: if_splits)
next
  case (Cons c s)
  show ?case
  proof (cases "take (length sub) (c # s) = sub")
    case True
    with Cons.prems have "i = 0" by simp
    with True show ?thesis by simp
  next
    case False
    with Cons.prems obtain j where j: "str_index s sub = Some j" "i = Suc j"
      by auto
    from Cons.IH [OF j(1)] j(2) show ?thesis by simp
  qed
qed

lemma str_index_first:
  "str_index s sub = Some i \<Longrightarrow> j < i \<Longrightarrow> take (length sub) (drop j s) \<noteq> sub"
proof (induction s arbitrary: i j)
  case Nil
  then show ?case by (simp split: if_splits)
next
  case (Cons c s)
  show ?case
  proof (cases "take (length sub) (c # s) = sub")
    case True
    with Cons.prems show ?thesis by simp
  next
    case False
    with Cons.prems obtain k where k: "str_index s sub = Some k" "i = Suc k"
      by auto
    show ?thesis
    proof (cases j)
      case 0
      with False show ?thesis by simp
    next
      case (Suc j')
      with Cons.prems(2) k(2) have "j' < k" by simp
      from Cons.IH [OF k(1) this] Suc show ?thesis by simp
    qed
  qed
qed

lemma str_index_None:
  "str_index s sub = None \<Longrightarrow> take (length sub) (drop j s) \<noteq> sub \<or> length s < j"
proof (induction s arbitrary: j)
  case Nil
  then show ?case by (cases j) (auto split: if_splits)
next
  case (Cons c s)
  from Cons.prems have ne: "take (length sub) (c # s) \<noteq> sub" and rec: "str_index s sub = None"
    by (auto split: if_splits)
  show ?case
  proof (cases j)
    case 0
    with ne show ?thesis by simp
  next
    case (Suc j')
    with Cons.IH [OF rec, of j'] show ?thesis by auto
  qed
qed

subsection \<open>The reader's actions on the shared object\<close>

lemma run_actions_append: "run_actions (as @ bs) g = run_actions bs (run_actions as g)"
  by (induction as arbitrary: g) simp_all

lemma run_actions_buffer: "output_buffer (run_actions as g) = output_buffer g @ flushed as"
proof (induction as arbitrary: g)
  case Nil
  show ?case by simp
next
  case (Cons a as)
  then show ?case by (cases a) simp_all
qed

lemma run_actions_process: "process (run_actions as g) = process g"
proof (induction as arbitrary: g)
  case Nil
  show ?case by simp
next
  case (Cons a as)
  then show ?case by (cases a) simp_all
qed

lemma run_actions_prompt:
  "prompt_ready (run_actions as g) = (prompt_ready g \<or> SetPrompt \<in> set as)"
proof (induction as arbitrary: g)
  case Nil
  show ?case by simp
next
  case (Cons a as)
  then show ?case by (cases a) auto
qed

lemma flushed_append: "flushed (as @ bs) = flushed as @ flushed bs"
  by (induction as rule: flushed.induct) simp_all

lemma flushed_until_prompt_prefix: "prefix (flushed_until_prompt as) (flushed as)"
  by (induction as rule: flushed.induct) simp_all

lemma is_running_run_actions: "is_running (run_actions as g) = is_running g"
  by (simp add: is_running_def run_actions_process)

subsection \<open>Draining the output buffer\<close>

lemma run_events_total:
  "concat (fst (run_events evs g)) @ concat (output_buffer (snd (run_events evs g)))
     = concat (output_buffer g) @ concat (flushed (reader_actions evs))"
proof (induction evs arbitrary: g)
  case Nil
  show ?case by simp
next
  case (Cons ev evs)
  show ?case
  proof (cases ev)
    case (Reader a)
    with Cons [of "apply_action a g"] show ?thesis by (cases a) simp_all
  next
    case Drain
    with Cons [of "g\<lparr>output_buffer := []\<rparr>"] show ?thesis
      by (simp add: get_output_def case_prod_beta)
  qed
qed

text \<open>
  C6. One drain returns the concatenation of all buffered chunks and leaves the buffer
  empty; a second drain with no append in between returns the empty string; and over any
  interleaving of the reader's appends with drains, the drained strings followed by what
  is still buffered are the initial chunks followed by the appended ones, in order: every
  chunk is handed out once, by one drain.
\<close>

theorem get_output_exactly_once:
  "fst (get_output g) = concat (output_buffer g)
   \<and> output_buffer (snd (get_output g)) = []
   \<and> fst (get_output (snd (get_output g))) = []
   \<and> concat (fst (run_events evs g)) @ concat (output_buffer (snd (run_events evs g)))
       = concat (output_buffer g) @ concat (flushed (reader_actions evs))"
  using run_events_total [of evs g] by (simp add: get_output_def)

subsection \<open>The reader thread\<close>

lemma str_index_found:
  "take (length sub) (drop j s) = sub \<Longrightarrow> j \<le> length s \<Longrightarrow> str_index s sub \<noteq> None"
  using str_index_None [of s sub j] by auto

lemma length_PROMPT: "length PROMPT = 2"
  by (simp add: PROMPT_def)

lemma prompt_chunk:
  assumes "str_index b PROMPT = Some i"
  shows "take (i + 2) b @ drop (i + 2) b = b"
    and "suffix PROMPT (take (i + 2) b)"
    and "\<not> str_contains (butlast (take (i + 2) b)) PROMPT"
    and "take (i + 2) b \<noteq> []"
proof -
  have len: "i + 2 \<le> length b"
    using str_index_bound [OF assms] by (simp only: length_PROMPT)
  have at: "take 2 (drop i b) = PROMPT"
    using str_index_at [OF assms] by (simp only: length_PROMPT)
  show "take (i + 2) b @ drop (i + 2) b = b" by simp
  have "take (i + 2) b = take i b @ take 2 (drop i b)"
    by (rule take_add)
  with at show "suffix PROMPT (take (i + 2) b)"
    by (simp add: suffix_def)
  from len show "take (i + 2) b \<noteq> []" by auto
  have bl: "butlast (take (i + 2) b) = take (i + 1) b"
    using len by (simp add: butlast_take)
  show "\<not> str_contains (butlast (take (i + 2) b)) PROMPT"
  proof
    assume "str_contains (butlast (take (i + 2) b)) PROMPT"
    then have "str_contains (take (i + 1) b) PROMPT"
      by (simp only: bl)
    then obtain j where j: "str_index (take (i + 1) b) PROMPT = Some j"
      by (auto simp: str_contains_def)
    from str_index_bound [OF j] len have ji: "j < i"
      by (simp add: length_PROMPT)
    from str_index_at [OF j] have "take 2 (drop j (take (i + 1) b)) = PROMPT"
      by (simp only: length_PROMPT)
    moreover from ji have "take 2 (drop j (take (i + 1) b)) = take 2 (drop j b)"
      by (simp add: drop_take min_def)
    ultimately have "take (length PROMPT) (drop j b) = PROMPT"
      by (simp only: length_PROMPT)
    with str_index_first [OF assms ji] show False by simp
  qed
qed

text \<open>
  C2. When the character just read is not a newline and the fragment, with that character
  added, contains the prompt marker, the reader appends one chunk and then sets the
  prompt signal, and nothing else. The chunk followed by the new fragment is the old
  fragment with the character added; the chunk ends with the marker; and the marker does
  not occur in the chunk any earlier, so the chunk stops right after the first occurrence.
\<close>

theorem read_step_prompt:
  assumes "ch \<noteq> newline" and "str_contains (buf @ [ch]) PROMPT"
  shows "\<exists>chunk rest.
           read_step buf ch = ([Append chunk, SetPrompt], rest)
           \<and> chunk @ rest = buf @ [ch]
           \<and> suffix PROMPT chunk
           \<and> \<not> str_contains (butlast chunk) PROMPT
           \<and> run_actions (fst (read_step buf ch)) g
               = g\<lparr>output_buffer := output_buffer g @ [chunk], prompt_ready := True\<rparr>"
proof -
  from assms(2) obtain i where i: "str_index (buf @ [ch]) PROMPT = Some i"
    by (auto simp: str_contains_def)
  let ?chunk = "take (i + 2) (buf @ [ch])"
  let ?rest = "drop (i + 2) (buf @ [ch])"
  have step: "read_step buf ch = ([Append ?chunk, SetPrompt], ?rest)"
    using assms(1) i by (simp add: read_step_def Let_def)
  have "run_actions (fst (read_step buf ch)) g
          = g\<lparr>output_buffer := output_buffer g @ [?chunk], prompt_ready := True\<rparr>"
    by (simp add: step)
  with step prompt_chunk(1-3) [OF i] show ?thesis by blast
qed

theorem read_step_prompt_witness:
  "CHR '' '' \<noteq> newline \<and> str_contains (''foo%'' @ [CHR '' '']) PROMPT
   \<and> (\<exists>chunk rest.
         read_step ''foo%'' (CHR '' '') = ([Append chunk, SetPrompt], rest)
         \<and> chunk @ rest = ''foo%'' @ [CHR '' '']
         \<and> suffix PROMPT chunk
         \<and> \<not> str_contains (butlast chunk) PROMPT
         \<and> run_actions (fst (read_step ''foo%'' (CHR '' ''))) gowin_init
             = gowin_init\<lparr>output_buffer := output_buffer gowin_init @ [chunk],
                            prompt_ready := True\<rparr>)
   \<and> read_step ''foo%'' (CHR '' '') = ([Append ''foo% '', SetPrompt], [])"
proof -
  have a: "CHR '' '' \<noteq> newline" by (simp add: newline_def)
  have b: "str_contains (''foo%'' @ [CHR '' '']) PROMPT"
    by (simp add: str_contains_def PROMPT_def)
  have c: "read_step ''foo%'' (CHR '' '') = ([Append ''foo% '', SetPrompt], [])"
    by (simp add: read_step_def PROMPT_def newline_def)
  from read_step_prompt [OF a b, of gowin_init] a b c show ?thesis by blast
qed

lemma read_step_nonempty: "[] \<notin> set (flushed (fst (read_step buf ch)))"
proof (cases "ch = newline")
  case True
  then show ?thesis by (simp add: read_step_def)
next
  case False
  show ?thesis
  proof (cases "str_index (buf @ [ch]) PROMPT")
    case None
    with False show ?thesis by (simp add: read_step_def)
  next
    case (Some i)
    with False prompt_chunk(4) [OF Some] show ?thesis
      by (simp add: read_step_def Let_def)
  qed
qed

lemma read_step_suffix:
  assumes "ch \<noteq> newline" and "chunk \<in> set (flushed (fst (read_step buf ch)))"
  shows "suffix PROMPT chunk"
proof (cases "str_index (buf @ [ch]) PROMPT")
  case None
  with assms show ?thesis by (simp add: read_step_def)
next
  case (Some i)
  with assms have "chunk = take (i + 2) (buf @ [ch])"
    by (simp add: read_step_def Let_def)
  with prompt_chunk(2) [OF Some] show ?thesis by simp
qed

lemma read_output_loop_nonempty: "[] \<notin> set (flushed (read_output_loop buf obs))"
proof (induction obs arbitrary: buf)
  case Nil
  show ?case by simp
next
  case (Cons ob obs)
  show ?case
  proof (cases ob)
    case CondFalse
    then show ?thesis by (simp add: leftover_def)
  next
    case (ReadChar ch)
    obtain acts buf' where st: "read_step buf ch = (acts, buf')"
      by (cases "read_step buf ch")
    with read_step_nonempty [of buf ch] have "[] \<notin> set (flushed acts)" by simp
    with Cons [of buf'] ReadChar st show ?thesis
      by (simp add: flushed_append)
  next
    case ReadEof
    then show ?thesis by (simp add: leftover_def)
  next
    case (ReadRaise e)
    then show ?thesis by (simp add: reader_error_def)
  qed
qed

text \<open>
  C10. No chunk the reader appends is empty, whatever it observes and from whatever
  fragment. A newline makes the chunk the fragment followed by the newline; a chunk
  appended for any other character ends with the marker; the flush after the loop and
  the diagnostic of a read error are not empty either.
\<close>

theorem read_output_chunks_nonempty:
  "[] \<notin> set (flushed (read_output obs))
   \<and> [] \<notin> set (flushed (read_output_loop buf obs))
   \<and> flushed (fst (read_step buf newline)) = [buf @ [newline]]
   \<and> (ch \<noteq> newline \<longrightarrow> (\<forall>chunk \<in> set (flushed (fst (read_step buf ch))). suffix PROMPT chunk))
   \<and> [] \<notin> set (flushed (leftover buf))
   \<and> reader_error e \<noteq> []"
  using read_output_loop_nonempty [of "[]" obs] read_output_loop_nonempty [of buf obs]
    read_step_suffix [of ch _ buf]
  by (simp add: read_output_def read_step_def leftover_def reader_error_def)

theorem read_output_chunks_nonempty_witness:
  "CHR '' '' \<noteq> newline
   \<and> flushed (fst (read_step ''foo%'' (CHR '' ''))) = [''foo% '']
   \<and> suffix PROMPT ''foo% ''
   \<and> flushed (read_output [ReadChar (CHR ''o''), ReadChar (CHR ''k''), ReadChar newline,
        ReadChar (CHR ''%''), ReadChar (CHR '' ''), ReadChar (CHR ''x''), ReadEof])
       = [''ok'' @ [newline], ''% '', ''x'']
   \<and> [] \<notin> set (flushed (read_output [ReadChar (CHR ''o''), ReadChar (CHR ''k''),
        ReadChar newline, ReadChar (CHR ''%''), ReadChar (CHR '' ''), ReadChar (CHR ''x''),
        ReadEof]))
   \<and> flushed (fst (read_step ''ok'' newline)) = [''ok'' @ [newline]]
   \<and> [] \<notin> set (flushed (leftover ''x''))
   \<and> reader_error ''closed'' \<noteq> []"
  using read_output_chunks_nonempty [where obs = "[ReadChar (CHR ''o''), ReadChar (CHR ''k''),
        ReadChar newline, ReadChar (CHR ''%''), ReadChar (CHR '' ''), ReadChar (CHR ''x''),
        ReadEof]" and buf = "''foo%''" and ch = "CHR '' ''" and e = "''closed''"]
  by (simp add: read_output_def read_step_def leftover_def PROMPT_def newline_def)

text \<open>
  From a fragment without the marker the marker can only appear at the very end, so the
  fragment the reader keeps never contains it and the remainder after a prompt is empty.
\<close>

lemma read_step_at_end:
  assumes "\<not> str_contains buf PROMPT" and "str_index (buf @ [ch]) PROMPT = Some i"
  shows "i + 2 = length (buf @ [ch])"
proof (rule ccontr)
  assume ne: "i + 2 \<noteq> length (buf @ [ch])"
  from str_index_bound [OF assms(2)] have "i + 2 \<le> length (buf @ [ch])"
    by (simp only: length_PROMPT)
  with ne have le: "i + 2 \<le> length buf" by simp
  from str_index_at [OF assms(2)] have "take 2 (drop i (buf @ [ch])) = PROMPT"
    by (simp only: length_PROMPT)
  with le have "take (length PROMPT) (drop i buf) = PROMPT"
    by (simp add: length_PROMPT)
  from str_index_found [OF this] le assms(1) show False
    by (simp add: str_contains_def)
qed

lemma read_step_fragment_clean:
  assumes "\<not> str_contains buf PROMPT"
  shows "\<not> str_contains (snd (read_step buf ch)) PROMPT"
proof (cases "ch = newline")
  case True
  then show ?thesis by (simp add: read_step_def str_contains_def PROMPT_def)
next
  case False
  show ?thesis
  proof (cases "str_index (buf @ [ch]) PROMPT")
    case None
    with False show ?thesis by (simp add: read_step_def str_contains_def)
  next
    case (Some i)
    from read_step_at_end [OF assms Some] have "drop (i + 2) (buf @ [ch]) = []" by simp
    with False Some show ?thesis
      by (simp add: read_step_def Let_def str_contains_def PROMPT_def)
  qed
qed

subsection \<open>Sending a command\<close>

lemma stdin_write_fields:
  "output_buffer (stdin_write s g) = output_buffer g"
  "prompt_ready (stdin_write s g) = prompt_ready g"
  by (simp_all add: stdin_write_def)

lemma event_wait_returns:
  "prompt_ready g \<or> \<not> wait_overflows timeout mx \<Longrightarrow>
     event_wait timeout mx msg blocked g
       = (Inr (prompt_ready g \<or> SetPrompt \<in> set blocked), run_actions blocked g)"
  by (auto simp: event_wait_def Let_def run_actions_prompt)


lemma send_command_not_running:
  "\<not> is_running g \<Longrightarrow>
     send_command g command w timeout sch
       = (Inl (RuntimeError ''Gowin process is not running. Start it first.''), g)"
  by (simp add: send_command_def)

lemma send_command_write_error:
  "is_running g \<Longrightarrow> write_error sch = Some e \<Longrightarrow>
     fst (send_command g command w timeout sch)
       = Inl (RuntimeError (''Error sending command: '' @ e))"
  by (simp add: send_command_def Let_def)

lemma send_command_ok:
  assumes "is_running g" and "write_error sch = None"
    and "\<not> (w \<and> SetPrompt \<notin> set (before_drain sch @ before_wait sch)
            \<and> wait_overflows timeout (timeout_max sch))"
  shows "fst (send_command g command w timeout sch)
           = Inr (concat (flushed (before_wait sch @ during_wait sch @ after_wait sch))
                  @ (if w \<and> SetPrompt \<notin> set (before_drain sch @ before_wait sch
                                                  @ during_wait sch)
                     then CHR 0x0A # ''[Warning: Command may still be running (timeout)]''
                     else []))"
    and "output_buffer (snd (send_command g command w timeout sch)) = []"
proof -
  let ?g5 = "run_actions (before_wait sch)
               (stdin_write (command @ [newline])
                  (snd (get_output (run_actions (before_drain sch) (g\<lparr>prompt_ready := False\<rparr>)))))"
  have flag: "prompt_ready ?g5 = (SetPrompt \<in> set (before_drain sch @ before_wait sch))"
    by (auto simp: run_actions_prompt stdin_write_fields get_output_def)
  have buf: "output_buffer ?g5 = flushed (before_wait sch)"
    by (simp add: run_actions_buffer stdin_write_fields get_output_def)
  show "fst (send_command g command w timeout sch)
           = Inr (concat (flushed (before_wait sch @ during_wait sch @ after_wait sch))
                  @ (if w \<and> SetPrompt \<notin> set (before_drain sch @ before_wait sch
                                                  @ during_wait sch)
                     then CHR 0x0A # ''[Warning: Command may still be running (timeout)]''
                     else []))"
  proof (cases w)
    case False
    with assms(1,2) buf show ?thesis
      by (simp add: send_command_def Let_def get_output_def run_actions_buffer flushed_append)
  next
    case True
    with assms(3) flag have "prompt_ready ?g5 \<or> \<not> wait_overflows timeout (timeout_max sch)"
      by auto
    from event_wait_returns [OF this, of "overflow_text sch" "during_wait sch"]
      True assms(1,2) buf flag
    show ?thesis
      by (auto simp: send_command_def Let_def get_output_def run_actions_buffer flushed_append
            newline_def)
  qed
  show "output_buffer (snd (send_command g command w timeout sch)) = []"
  proof (cases w)
    case False
    with assms(1,2) show ?thesis
      by (simp add: send_command_def Let_def get_output_def)
  next
    case True
    with assms(3) flag have "prompt_ready ?g5 \<or> \<not> wait_overflows timeout (timeout_max sch)"
      by auto
    from event_wait_returns [OF this, of "overflow_text sch" "during_wait sch"]
      True assms(1,2)
    show ?thesis
      by (simp add: send_command_def Let_def get_output_def)
  qed
qed


lemma is_running_init: "\<not> is_running gowin_init"
  by (simp add: is_running_def gowin_init_def)

lemma is_running_session: "is_running running_session"
  by (simp add: is_running_def running_session_def new_popen_def)


lemma progress_fields:
  "before_drain progress_sched = []" "write_error progress_sched = None"
  "before_wait progress_sched = []" "timeout_max progress_sched = 4294967"
  "after_wait progress_sched = []"
  "during_wait progress_sched
     = [Append ''50% '', SetPrompt, Append (''done'' @ [newline]), Append ''% '', SetPrompt]"
  by (simp_all add: progress_sched_def quiet_def read_output_def read_step_def PROMPT_def
        newline_def)

lemma slow_fields:
  "before_drain slow_sched = []" "write_error slow_sched = None"
  "before_wait slow_sched = []" "timeout_max slow_sched = 4294967"
  "after_wait slow_sched = []"
  "during_wait slow_sched = [Append (''Placing'' @ [newline])]"
  by (simp_all add: slow_sched_def quiet_def read_output_def read_step_def PROMPT_def
        newline_def)

lemma concat_prefix: "prefix xs ys \<Longrightarrow> prefix (concat xs) (concat ys)"
  by (auto simp: prefix_def)

text \<open>
  C1, as stated, fails: the reader goes on while the calling thread is on its way from
  the wait to the last drain. Here the child prints \<^verbatim>\<open>50% done\<close>, a newline and
  its prompt; the reader takes the \<^verbatim>\<open>% \<close> of the progress line for a prompt and
  sets the signal, and has flushed two more chunks by the time the calling thread
  drains. The chunks flushed up to the detection are \<^verbatim>\<open>50% \<close>; the returned
  string is the whole output.
\<close>

theorem send_returns_past_prompt:
  "fst (send_command running_session ''run syn'' True (Float 300) progress_sched)
     \<noteq> Inr (concat (flushed_until_prompt
                      (before_wait progress_sched @ during_wait progress_sched
                       @ after_wait progress_sched)))
   \<and> fst (send_command running_session ''run syn'' True (Float 300) progress_sched)
       = Inr (''50% done'' @ [CHR 0x0A] @ ''% '')
   \<and> concat (flushed_until_prompt
               (before_wait progress_sched @ during_wait progress_sched
                @ after_wait progress_sched))
       = ''50% ''"
proof -
  have "\<not> (True \<and> SetPrompt \<notin> set (before_drain progress_sched @ before_wait progress_sched)
            \<and> wait_overflows (Float 300) (timeout_max progress_sched))"
    by (simp add: progress_fields wait_overflows_def)
  from send_command_ok(1) [OF is_running_session progress_fields(2) this, of "''run syn''"]
  show ?thesis
    by (simp add: progress_fields newline_def)
qed

text \<open>
  C1, amended. With the session running, the write succeeding and the wait returning
  true (the signal is set when the wait is called, or the wait accepts its timeout and
  the signal is set while it blocks), \<^verbatim>\<open>send_command\<close> returns the concatenation,
  in order, of exactly the chunks the reader flushed between the drain before the write
  and the last drain. That string begins with the chunks flushed up to the first prompt
  detection after the first drain and may go on with chunks flushed after it. Nothing
  buffered before the first drain is in it: the result depends neither on the buffer at
  the call nor on \<open>before_drain\<close>.
\<close>

theorem send_returns_flushed:
  assumes "is_running g" and "write_error sch = None"
    and "SetPrompt \<in> set (before_drain sch @ before_wait sch)
         \<or> (\<not> wait_overflows timeout (timeout_max sch) \<and> SetPrompt \<in> set (during_wait sch))"
  shows "fst (send_command g command True timeout sch)
           = Inr (concat (flushed (before_wait sch @ during_wait sch @ after_wait sch)))
         \<and> prefix (concat (flushed_until_prompt
                             (before_wait sch @ during_wait sch @ after_wait sch)))
                  (concat (flushed (before_wait sch @ during_wait sch @ after_wait sch)))"
proof -
  from assms(3) have
    "\<not> (True \<and> SetPrompt \<notin> set (before_drain sch @ before_wait sch)
         \<and> wait_overflows timeout (timeout_max sch))"
    by auto
  from send_command_ok(1) [OF assms(1,2) this, of command] assms(3)
    concat_prefix [OF flushed_until_prompt_prefix
      [of "before_wait sch @ during_wait sch @ after_wait sch"]]
  show ?thesis by auto
qed

theorem send_returns_flushed_witness:
  "is_running running_session \<and> write_error progress_sched = None
   \<and> \<not> wait_overflows (Float 300) (timeout_max progress_sched)
   \<and> SetPrompt \<in> set (during_wait progress_sched)
   \<and> fst (send_command running_session ''run pnr'' True (Float 300) progress_sched)
       = Inr (concat (flushed (before_wait progress_sched @ during_wait progress_sched
                               @ after_wait progress_sched)))
   \<and> fst (send_command running_session ''run pnr'' True (Float 300) progress_sched)
       = Inr (''50% done'' @ [CHR 0x0A] @ ''% '')
   \<and> prefix (concat (flushed_until_prompt
                       (before_wait progress_sched @ during_wait progress_sched
                        @ after_wait progress_sched)))
             (concat (flushed (before_wait progress_sched @ during_wait progress_sched
                               @ after_wait progress_sched)))"
proof -
  have o: "\<not> wait_overflows (Float 300) (timeout_max progress_sched)"
    by (simp add: progress_fields wait_overflows_def)
  have p: "SetPrompt \<in> set (during_wait progress_sched)"
    by (simp add: progress_fields)
  have "SetPrompt \<in> set (before_drain progress_sched @ before_wait progress_sched)
         \<or> (\<not> wait_overflows (Float 300) (timeout_max progress_sched)
             \<and> SetPrompt \<in> set (during_wait progress_sched))"
    using o p by simp
  from send_returns_flushed [OF is_running_session progress_fields(2) this, of "''run pnr''"]
    is_running_session o p
  show ?thesis by (simp add: progress_fields newline_def)
qed

text \<open>
  C5. With the session running and the write succeeding, when the wait returns false
  (it accepts its timeout, and the signal is not set by the time it gives up),
  \<^verbatim>\<open>send_command\<close> does not raise: it drains the buffer and returns the chunks
  flushed since the drain before the write, followed by a newline and the note
  \<^verbatim>\<open>[Warning: Command may still be running (timeout)]\<close>; the buffer is empty
  afterwards.
\<close>

theorem send_timeout_returns_partial:
  assumes "is_running g" and "write_error sch = None"
    and "SetPrompt \<notin> set (before_drain sch @ before_wait sch @ during_wait sch)"
    and "\<not> wait_overflows timeout (timeout_max sch)"
  shows "fst (send_command g command True timeout sch)
           = Inr (concat (flushed (before_wait sch @ during_wait sch @ after_wait sch))
                  @ CHR 0x0A # ''[Warning: Command may still be running (timeout)]'')
         \<and> returns_string (fst (send_command g command True timeout sch))
         \<and> output_buffer (snd (send_command g command True timeout sch)) = []"
proof -
  from assms(4) have
    "\<not> (True \<and> SetPrompt \<notin> set (before_drain sch @ before_wait sch)
         \<and> wait_overflows timeout (timeout_max sch))"
    by simp
  from send_command_ok [OF assms(1,2) this, of command] assms(3)
  show ?thesis by simp
qed

theorem send_timeout_returns_partial_witness:
  "is_running running_session \<and> write_error slow_sched = None
   \<and> SetPrompt \<notin> set (before_drain slow_sched @ before_wait slow_sched @ during_wait slow_sched)
   \<and> \<not> wait_overflows (Float 300) (timeout_max slow_sched)
   \<and> fst (send_command running_session ''run pnr'' True (Float 300) slow_sched)
       = Inr (''Placing'' @ [CHR 0x0A] @ CHR 0x0A
              # ''[Warning: Command may still be running (timeout)]'')
   \<and> returns_string (fst (send_command running_session ''run pnr'' True (Float 300) slow_sched))
   \<and> output_buffer (snd (send_command running_session ''run pnr'' True (Float 300) slow_sched))
       = []"
proof -
  have p: "SetPrompt \<notin> set (before_drain slow_sched @ before_wait slow_sched
                              @ during_wait slow_sched)"
    by (simp add: slow_fields)
  have o: "\<not> wait_overflows (Float 300) (timeout_max slow_sched)"
    by (simp add: slow_fields wait_overflows_def)
  from send_timeout_returns_partial [OF is_running_session slow_fields(2) p o, of "''run pnr''"]
    is_running_session p o
  show ?thesis by (simp add: slow_fields newline_def)
qed

text \<open>
  C7. When \<^verbatim>\<open>is_running()\<close> is false, \<^verbatim>\<open>send_command\<close> raises the
  not-running error and leaves the object as it was: nothing is written to the child's
  input, the buffer is not drained and the signal is not touched.
\<close>

theorem send_before_start:
  assumes "\<not> is_running g"
  shows "send_command g command wait_for_prompt timeout sch
           = (Inl (RuntimeError ''Gowin process is not running. Start it first.''), g)"
  using assms by (rule send_command_not_running)

theorem send_before_start_witness:
  "\<not> is_running gowin_init
   \<and> send_command gowin_init ''run syn'' True (Float 300) quiet
       = (Inl (RuntimeError ''Gowin process is not running. Start it first.''), gowin_init)"
  using send_before_start [OF is_running_init, of "''run syn''" True "Float 300" quiet]
    is_running_init
  by simp

subsection \<open>Starting and stopping\<close>

lemma str_contains_middle: "str_contains (a @ e @ b) e"
proof -
  have "take (length e) (drop (length a) (a @ e @ b)) = e" by simp
  from str_index_found [OF this] show ?thesis by (simp add: str_contains_def)
qed

lemma str_contains_end: "str_contains (a @ e) e"
  using str_contains_middle [of a e "[]"] by simp

lemma stop_gowin_returns:
  "fst (stop_gowin g sch)
     = Inr (if is_running g then ''Gowin process stopped.'' else ''Gowin process is not running.'')"
  by (simp add: stop_gowin_def Let_def case_prod_beta)

lemma stop_gowin_state:
  "is_running g \<Longrightarrow>
     process (snd (stop_gowin g sch)) = None \<and> \<not> prompt_ready (snd (stop_gowin g sch))"
  by (simp add: stop_gowin_def Let_def case_prod_beta)

lemma start_gowin_spawn_error:
  "\<not> is_running g \<Longrightarrow> spawn_error sch = Some e \<Longrightarrow>
     start_gowin g sch = (Inr (''Error starting process: '' @ e), g\<lparr>process := None\<rparr>)"
  by (simp add: start_gowin_def)


text \<open>The state in which \<^verbatim>\<open>start_gowin\<close> sends its priming command.\<close>

lemma start_gowin_priming:
  assumes "\<not> is_running g" and "spawn_error sch = None" and "thread_error sch = None"
    and "\<not> wait_overflows (Float 5) (timeout_max (priming sch))"
  shows "fst (start_gowin g sch)
           = (case fst (send_command
                          (child_exit (exit_before_priming sch)
                             (run_actions (before_initial_wait sch @ initial_wait sch)
                                (g\<lparr>process := Some new_popen, prompt_ready := False\<rparr>)))
                          ''set tcl_interactive 1'' True (Float 5) (priming sch)) of
                Inr output \<Rightarrow> Inr (''Gowin process started successfully.'' @ [newline] @ output)
              | Inl e \<Rightarrow>
                  Inr (''Gowin process started, but error setting interactive mode: ''
                       @ exn_text e))"
proof -
  let ?g2 = "g\<lparr>process := Some new_popen, prompt_ready := False\<rparr>"
  from assms(4) have
    "prompt_ready (run_actions (before_initial_wait sch) ?g2)
     \<or> \<not> wait_overflows (Float 5) (timeout_max (priming sch))"
    by simp
  from event_wait_returns [OF this, of "overflow_text (priming sch)" "initial_wait sch"]
    assms(1-3)
  show ?thesis
    by (simp add: start_gowin_def Let_def run_actions_append split: prod.splits sum.splits)
qed


lemma start_gowin_priming_error:
  assumes "\<not> is_running g" and "spawn_error sch = None" and "thread_error sch = None"
    and "\<not> wait_overflows (Float 5) (timeout_max (priming sch))"
    and "exit_before_priming sch = None" and "write_error (priming sch) = Some e"
  shows "fst (start_gowin g sch)
           = Inr (''Gowin process started, but error setting interactive mode: ''
                  @ ''Error sending command: '' @ e)"
proof -
  let ?g4 = "child_exit (exit_before_priming sch)
               (run_actions (before_initial_wait sch @ initial_wait sch)
                  (g\<lparr>process := Some new_popen, prompt_ready := False\<rparr>))"
  have "is_running ?g4"
    using assms(5) by (simp add: child_exit_def is_running_def run_actions_process new_popen_def)
  from send_command_write_error [OF this assms(6), of "''set tcl_interactive 1''" True "Float 5"]
    start_gowin_priming [OF assms(1-4)]
  show ?thesis by simp
qed

lemma start_gowin_child_exited:
  assumes "\<not> is_running g" and "spawn_error sch = None" and "thread_error sch = None"
    and "\<not> wait_overflows (Float 5) (timeout_max (priming sch))"
    and "exit_before_priming sch = Some rc"
  shows "fst (start_gowin g sch)
           = Inr (''Gowin process started, but error setting interactive mode: ''
                  @ ''Gowin process is not running. Start it first.'')"
proof -
  let ?g4 = "child_exit (exit_before_priming sch)
               (run_actions (before_initial_wait sch @ initial_wait sch)
                  (g\<lparr>process := Some new_popen, prompt_ready := False\<rparr>))"
  have "\<not> is_running ?g4"
    using assms(5) by (simp add: child_exit_def is_running_def run_actions_process new_popen_def)
  from send_command_not_running [OF this, of "''set tcl_interactive 1''" True "Float 5" "priming sch"]
    start_gowin_priming [OF assms(1-4)]
  show ?thesis by simp
qed



text \<open>The escalation of a stop whose child ignores the exit command and the terminate request.\<close>

lemma stop_try_escalates:
  "stop_try running_session stubborn_stop
     = (None, running_session\<lparr>process :=
          Some (new_popen\<lparr>stdin_text := ''exit'' @ [newline], signals := [SIGTERM, SIGKILL]\<rparr>)\<rparr>)"
  by (simp add: stop_try_def stubborn_stop_def quiet_def running_session_def new_popen_def
        send_command_def is_running_def child_exit_def get_output_def stdin_write_def
        send_signal_def Let_def)


lemma start_example_fields:
  "spawn_error failing_spawn = Some ''No such file or directory''"
  "spawn_error failing_priming = None" "thread_error failing_priming = None"
  "exit_before_priming failing_priming = None"
  "write_error (priming failing_priming) = Some ''Broken pipe''"
  "timeout_max (priming failing_priming) = 4294967"
  "spawn_error failing_thread = None" "thread_error failing_thread = Some ''can't start new thread''"
  "spawn_error dying_child = None" "thread_error dying_child = None"
  "exit_before_priming dying_child = Some 1"
  "timeout_max (priming dying_child) = 4294967"
  by (simp_all add: failing_spawn_def failing_priming_def failing_thread_def dying_child_def
        quiet_def)

text \<open>
  C4. For every stop of a running session, whatever the exit command, the two waits,
  the terminate request and the kills do (return, time out or raise), \<^verbatim>\<open>stop_gowin\<close>
  returns its status string, and in the state it leaves the process handle is
  \<^verbatim>\<open>None\<close>, the prompt signal is clear and \<^verbatim>\<open>is_running()\<close> is false.
\<close>

theorem stop_always_clears:
  assumes "is_running g"
  shows "fst (stop_gowin g sch) = Inr ''Gowin process stopped.''
         \<and> process (snd (stop_gowin g sch)) = None
         \<and> \<not> prompt_ready (snd (stop_gowin g sch))
         \<and> \<not> is_running (snd (stop_gowin g sch))"
  using assms stop_gowin_state [OF assms, of sch]
  by (simp add: stop_gowin_returns is_running_def)

theorem stop_always_clears_witness:
  "is_running running_session
   \<and> fst (stop_gowin running_session failing_stop) = Inr ''Gowin process stopped.''
   \<and> process (snd (stop_gowin running_session failing_stop)) = None
   \<and> \<not> prompt_ready (snd (stop_gowin running_session failing_stop))
   \<and> \<not> is_running (snd (stop_gowin running_session failing_stop))
   \<and> process (snd (stop_gowin running_session stubborn_stop)) = None"
  using stop_always_clears [OF is_running_session, of failing_stop]
    stop_always_clears [OF is_running_session, of stubborn_stop] is_running_session
  by simp

text \<open>
  C9. When the session is not running and \<^verbatim>\<open>Popen\<close> raises, \<^verbatim>\<open>start_gowin\<close>
  returns the error message, which carries the text of the exception, sets the handle to
  \<^verbatim>\<open>None\<close> and changes nothing else: \<^verbatim>\<open>is_running()\<close> is false, as it was
  before the call, the buffer and the signal are as before, and when the handle was
  already \<^verbatim>\<open>None\<close> the object is the same as before.
\<close>

theorem start_spawn_failure:
  assumes "\<not> is_running g" and "spawn_error sch = Some e"
  shows "start_gowin g sch = (Inr (''Error starting process: '' @ e), g\<lparr>process := None\<rparr>)
         \<and> returns_reporting (fst (start_gowin g sch)) e
         \<and> process (snd (start_gowin g sch)) = None
         \<and> \<not> is_running (snd (start_gowin g sch))
         \<and> is_running (snd (start_gowin g sch)) = is_running g
         \<and> output_buffer (snd (start_gowin g sch)) = output_buffer g
         \<and> prompt_ready (snd (start_gowin g sch)) = prompt_ready g
         \<and> (process g = None \<longrightarrow> snd (start_gowin g sch) = g)"
  using assms str_contains_end [of "''Error starting process: ''" e]
  by (simp add: start_gowin_spawn_error is_running_def)

theorem start_spawn_failure_witness:
  "\<not> is_running gowin_init \<and> spawn_error failing_spawn = Some ''No such file or directory''
   \<and> start_gowin gowin_init failing_spawn
       = (Inr ''Error starting process: No such file or directory'', gowin_init)
   \<and> \<not> is_running (snd (start_gowin gowin_init failing_spawn))"
  using start_spawn_failure [OF is_running_init start_example_fields(1)] is_running_init
    start_example_fields(1)
  by (simp add: gowin_init_def)

subsection \<open>How failures reach the caller\<close>

text \<open>
  C3, as stated, fails: \<^verbatim>\<open>send_command\<close> does not hand a status back, it raises.
  Before a start it raises, and so does the tool that called it; with a live child and
  a write that fails it raises as well, and so does the tool.
\<close>

theorem send_failure_is_raised:
  "\<not> returns_string (fst (send_command gowin_init ''run syn'' True (Float 300) quiet))
   \<and> \<not> returns_string (fst (run_synthesis gowin_init quiet))
   \<and> \<not> returns_string
         (fst (send_command running_session ''run syn'' True (Float 300)
                 (quiet\<lparr>write_error := Some ''Broken pipe''\<rparr>)))
   \<and> \<not> returns_string
         (fst (run_synthesis running_session (quiet\<lparr>write_error := Some ''Broken pipe''\<rparr>)))"
proof -
  have "write_error (quiet\<lparr>write_error := Some ''Broken pipe''\<rparr>) = Some ''Broken pipe''"
    by simp
  from send_command_write_error [OF is_running_session this, of "''run syn''" True "Float 300"]
  show ?thesis
    by (simp add: run_synthesis_def send_command_not_running [OF is_running_init])
qed

text \<open>
  C3, amended. For every \<^verbatim>\<open>send_command\<close>, the not-running condition and a failed
  write are raised as a \<^verbatim>\<open>RuntimeError\<close> that carries a message:
  \<^verbatim>\<open>Gowin process is not running. Start it first.\<close>, or
  \<^verbatim>\<open>Error sending command: \<close> followed by the text of the cause. Each other tool
  is \<^verbatim>\<open>send_command\<close> on the command line it builds, with its timeout, so both
  exceptions leave the tool as they are. \<^verbatim>\<open>start_gowin\<close> catches the exception of
  its priming command and returns a string that ends with its message;
  \<^verbatim>\<open>stop_gowin\<close> catches the exception of its exit command and returns its status
  string.
\<close>

theorem send_failures_raise_runtime_error:
  "(\<not> is_running g \<longrightarrow>
      fst (send_command g command w timeout sch)
        = Inl (RuntimeError ''Gowin process is not running. Start it first.''))
   \<and> (is_running g \<and> write_error sch = Some e \<longrightarrow>
        fst (send_command g command w timeout sch)
          = Inl (RuntimeError (''Error sending command: '' @ e)))
   \<and> create_project g name directory part_number device_version force sch
       = send_command g
           (''create_project -name '' @ name @ '' -dir '' @ [CHR 0x22] @ directory @ [CHR 0x22]
            @ '' -pn '' @ part_number @ '' -device_version '' @ device_version
            @ (if force then '' -force'' else [])) True (Float 30) sch
   \<and> add_file g file_type file_path sch
       = send_command g
           (''add_file -type '' @ file_type @ '' '' @ [CHR 0x22] @ file_path @ [CHR 0x22])
           True (Float 30) sch
   \<and> set_top_module g modname sch
       = send_command g (''set_option -top_module '' @ modname) True (Float 30) sch
   \<and> set_output_base_name g base_name sch
       = send_command g (''set_option -output_base_name '' @ base_name) True (Float 30) sch
   \<and> set_option g option_name option_value sch
       = send_command g (''set_option -'' @ option_name @ '' '' @ option_value) True (Float 30) sch
   \<and> run_synthesis g sch = send_command g ''run syn'' True (Float 300) sch
   \<and> run_place_and_route g sch = send_command g ''run pnr'' True (Float 300) sch
   \<and> run_all g sch = send_command g ''run all'' True (Float 600) sch
   \<and> send_tcl_command g command timeout sch = send_command g command True timeout sch
   \<and> (\<not> is_running g \<and> spawn_error ssch = None \<and> thread_error ssch = None
        \<and> \<not> wait_overflows (Float 5) (timeout_max (priming ssch))
        \<and> exit_before_priming ssch = None \<and> write_error (priming ssch) = Some e \<longrightarrow>
        fst (start_gowin g ssch)
          = Inr (''Gowin process started, but error setting interactive mode: ''
                 @ ''Error sending command: '' @ e))
   \<and> (\<not> is_running g \<and> spawn_error ssch = None \<and> thread_error ssch = None
        \<and> \<not> wait_overflows (Float 5) (timeout_max (priming ssch))
        \<and> exit_before_priming ssch = Some rc \<longrightarrow>
        fst (start_gowin g ssch)
          = Inr (''Gowin process started, but error setting interactive mode: ''
                 @ ''Gowin process is not running. Start it first.''))
   \<and> (is_running g \<longrightarrow> fst (stop_gowin g tsch) = Inr ''Gowin process stopped.'')"
proof -
  have d: "create_project g name directory part_number device_version force sch
       = send_command g
           (''create_project -name '' @ name @ '' -dir '' @ [CHR 0x22] @ directory @ [CHR 0x22]
            @ '' -pn '' @ part_number @ '' -device_version '' @ device_version
            @ (if force then '' -force'' else [])) True (Float 30) sch"
    by (simp add: create_project_def Let_def dquote_def)
  have a: "add_file g file_type file_path sch
       = send_command g
           (''add_file -type '' @ file_type @ '' '' @ [CHR 0x22] @ file_path @ [CHR 0x22])
           True (Float 30) sch"
    by (simp add: add_file_def dquote_def)
  have p: "\<not> is_running g \<and> spawn_error ssch = None \<and> thread_error ssch = None
        \<and> \<not> wait_overflows (Float 5) (timeout_max (priming ssch))
        \<and> exit_before_priming ssch = None \<and> write_error (priming ssch) = Some e \<longrightarrow>
        fst (start_gowin g ssch)
          = Inr (''Gowin process started, but error setting interactive mode: ''
                 @ ''Error sending command: '' @ e)"
    using start_gowin_priming_error [of g ssch e] by blast
  have x: "\<not> is_running g \<and> spawn_error ssch = None \<and> thread_error ssch = None
        \<and> \<not> wait_overflows (Float 5) (timeout_max (priming ssch))
        \<and> exit_before_priming ssch = Some rc \<longrightarrow>
        fst (start_gowin g ssch)
          = Inr (''Gowin process started, but error setting interactive mode: ''
                 @ ''Gowin process is not running. Start it first.'')"
    using start_gowin_child_exited [of g ssch rc] by blast
  have s: "(\<not> is_running g \<longrightarrow>
      fst (send_command g command w timeout sch)
        = Inl (RuntimeError ''Gowin process is not running. Start it first.''))
   \<and> (is_running g \<and> write_error sch = Some e \<longrightarrow>
        fst (send_command g command w timeout sch)
          = Inl (RuntimeError (''Error sending command: '' @ e)))"
    by (simp add: send_command_not_running send_command_write_error)
  have t: "set_top_module g modname sch
       = send_command g (''set_option -top_module '' @ modname) True (Float 30) sch
   \<and> set_output_base_name g base_name sch
       = send_command g (''set_option -output_base_name '' @ base_name) True (Float 30) sch
   \<and> set_option g option_name option_value sch
       = send_command g (''set_option -'' @ option_name @ '' '' @ option_value) True (Float 30) sch
   \<and> run_synthesis g sch = send_command g ''run syn'' True (Float 300) sch
   \<and> run_place_and_route g sch = send_command g ''run pnr'' True (Float 300) sch
   \<and> run_all g sch = send_command g ''run all'' True (Float 600) sch
   \<and> send_tcl_command g command timeout sch = send_command g command True timeout sch"
    by (simp add: set_top_module_def set_output_base_name_def set_option_def run_synthesis_def
          run_place_and_route_def run_all_def send_tcl_command_def)
  have z: "is_running g \<longrightarrow> fst (stop_gowin g tsch) = Inr ''Gowin process stopped.''"
    by (simp add: stop_gowin_returns)
  from s d a t p x z show ?thesis by blast
qed

theorem send_failures_raise_runtime_error_witness:
  "\<not> is_running gowin_init
   \<and> fst (send_command gowin_init ''run all'' True (Float 600) quiet)
       = Inl (RuntimeError ''Gowin process is not running. Start it first.'')
   \<and> fst (run_all gowin_init quiet)
       = Inl (RuntimeError ''Gowin process is not running. Start it first.'')
   \<and> is_running running_session
   \<and> write_error (quiet\<lparr>write_error := Some ''Broken pipe''\<rparr>) = Some ''Broken pipe''
   \<and> fst (run_all running_session (quiet\<lparr>write_error := Some ''Broken pipe''\<rparr>))
       = Inl (RuntimeError ''Error sending command: Broken pipe'')
   \<and> spawn_error failing_priming = None \<and> thread_error failing_priming = None
   \<and> \<not> wait_overflows (Float 5) (timeout_max (priming failing_priming))
   \<and> exit_before_priming failing_priming = None
   \<and> write_error (priming failing_priming) = Some ''Broken pipe''
   \<and> fst (start_gowin gowin_init failing_priming)
       = Inr (''Gowin process started, but error setting interactive mode: ''
              @ ''Error sending command: Broken pipe'')
   \<and> exit_before_priming dying_child = Some 1
   \<and> fst (start_gowin gowin_init dying_child)
       = Inr (''Gowin process started, but error setting interactive mode: ''
              @ ''Gowin process is not running. Start it first.'')
   \<and> fst (stop_gowin running_session failing_stop) = Inr ''Gowin process stopped.''"
proof -
  have o1: "\<not> wait_overflows (Float 5) (timeout_max (priming failing_priming))"
    and o2: "\<not> wait_overflows (Float 5) (timeout_max (priming dying_child))"
    by (simp_all add: start_example_fields wait_overflows_def)
  have w: "write_error (quiet\<lparr>write_error := Some ''Broken pipe''\<rparr>) = Some ''Broken pipe''"
    by simp
  have 1: "fst (send_command gowin_init ''run all'' True (Float 600) quiet)
             = Inl (RuntimeError ''Gowin process is not running. Start it first.'')
           \<and> fst (run_all gowin_init quiet)
             = Inl (RuntimeError ''Gowin process is not running. Start it first.'')
           \<and> fst (start_gowin gowin_init failing_priming)
             = Inr (''Gowin process started, but error setting interactive mode: ''
                    @ ''Error sending command: Broken pipe'')"
    using send_failures_raise_runtime_error [where g = gowin_init and command = "''run all''"
        and w = True and timeout = "Float 600" and sch = quiet and e = "''Broken pipe''"
        and name = "[]" and directory = "[]" and part_number = "[]" and device_version = "[]"
        and force = True and file_type = "[]" and file_path = "[]" and modname = "[]"
        and base_name = "[]" and option_name = "[]" and option_value = "[]"
        and ssch = failing_priming and rc = 1 and tsch = failing_stop]
      is_running_init o1 start_example_fields
    by simp
  have 2: "fst (start_gowin gowin_init dying_child)
             = Inr (''Gowin process started, but error setting interactive mode: ''
                    @ ''Gowin process is not running. Start it first.'')"
    using send_failures_raise_runtime_error [where g = gowin_init and command = "''run all''"
        and w = True and timeout = "Float 600" and sch = quiet and e = "''Broken pipe''"
        and name = "[]" and directory = "[]" and part_number = "[]" and device_version = "[]"
        and force = True and file_type = "[]" and file_path = "[]" and modname = "[]"
        and base_name = "[]" and option_name = "[]" and option_value = "[]"
        and ssch = dying_child and rc = 1 and tsch = failing_stop]
      is_running_init o2 start_example_fields
    by simp
  have 3: "fst (run_all running_session (quiet\<lparr>write_error := Some ''Broken pipe''\<rparr>))
             = Inl (RuntimeError ''Error sending command: Broken pipe'')
           \<and> fst (stop_gowin running_session failing_stop) = Inr ''Gowin process stopped.''"
    using send_failures_raise_runtime_error [where g = running_session
        and command = "''run all''" and w = True and timeout = "Float 600"
        and sch = "quiet\<lparr>write_error := Some ''Broken pipe''\<rparr>" and e = "''Broken pipe''"
        and name = "[]" and directory = "[]" and part_number = "[]" and device_version = "[]"
        and force = True and file_type = "[]" and file_path = "[]" and modname = "[]"
        and base_name = "[]" and option_name = "[]" and option_value = "[]"
        and ssch = dying_child and rc = 1 and tsch = failing_stop]
      is_running_session w
    by simp
  from 1 2 3 is_running_init is_running_session w o1 start_example_fields
  show ?thesis by simp
qed




end
